theory Spec2Isabelle
  imports Complex_Main
begin

section \<open>Python values\<close>

text \<open>
  The two adapters pass loosely typed data around: the records of the scholarly
  library, the JSON body of a request, the results of the OCR library. A value is
  \<open>None\<close>, a boolean, an integer, a finite float (held as the rational it denotes),
  a string, a list, or a dictionary with string keys (an association list; the first
  binding of a key is the one \<open>get\<close> sees). A character is a code point below 256.
\<close>

datatype pyval =
    PNone
  | PBool bool
  | PInt int
  | PFloat rat
  | PStr string
  | PList "pyval list"
  | PDict "(string \<times> pyval) list"

text \<open>
  Exceptions are values: a computation that may raise returns \<open>Inl\<close> of the
  exception, and \<open>Inr\<close> of its result otherwise. \<open>OtherError\<close> is any exception
  of an external library, with the text that identifies it.
\<close>

datatype pyexn =
    ImportError
  | AttributeError
  | TypeError
  | ValueError
  | IndexError
  | ValidationError
  | OtherError string

definition and_then :: "'e + 'a \<Rightarrow> ('a \<Rightarrow> 'e + 'b) \<Rightarrow> 'e + 'b" where
  "and_then m f = (case m of Inl e \<Rightarrow> Inl e | Inr x \<Rightarrow> f x)"

text \<open>Truth value testing, as \<open>if x:\<close>, \<open>not x\<close> and \<open>x or y\<close> do it.\<close>

fun truthy :: "pyval \<Rightarrow> bool" where
  "truthy PNone = False"
| "truthy (PBool b) = b"
| "truthy (PInt i) = (i \<noteq> 0)"
| "truthy (PFloat q) = (q \<noteq> 0)"
| "truthy (PStr s) = (s \<noteq> [])"
| "truthy (PList xs) = (xs \<noteq> [])"
| "truthy (PDict d) = (d \<noteq> [])"

definition py_or :: "pyval \<Rightarrow> pyval \<Rightarrow> pyval" where
  "py_or a b = (if truthy a then a else b)"

text \<open>\<open>x.get(key, default)\<close>: only a dictionary has the method.\<close>

definition dict_get :: "(string \<times> pyval) list \<Rightarrow> string \<Rightarrow> pyval \<Rightarrow> pyval" where
  "dict_get d k dflt = (case map_of d k of Some v \<Rightarrow> v | None \<Rightarrow> dflt)"

fun py_get :: "pyval \<Rightarrow> string \<Rightarrow> pyval \<Rightarrow> pyexn + pyval" where
  "py_get (PDict d) k dflt = Inr (dict_get d k dflt)"
| "py_get v k dflt = Inl AttributeError"

text \<open>
  An integer of more than 4300 decimal digits (the default of
  \<open>sys.get_int_max_str_digits()\<close>) cannot be written: \<open>str\<close>, \<open>repr\<close> and
  \<open>json.dumps\<close> raise \<open>ValueError\<close> on it, and on a list or a dictionary that holds
  one. \<open>huge_int\<close> is the least of them.
\<close>

definition max_str_digits :: nat where
  "max_str_digits = 4300"

definition huge_int :: int where
  "huge_int = 10 ^ max_str_digits"

primrec has_huge_int :: "pyval \<Rightarrow> bool" where
  "has_huge_int PNone = False"
| "has_huge_int (PBool b) = False"
| "has_huge_int (PInt i) = (huge_int \<le> \<bar>i\<bar>)"
| "has_huge_int (PFloat q) = False"
| "has_huge_int (PStr s) = False"
| "has_huge_int (PList xs) = list_ex id (map has_huge_int xs)"
| "has_huge_int (PDict d) = list_ex id (map snd (map (map_prod id has_huge_int) d))"

subsection \<open>Strings\<close>

definition py_isspace :: "char \<Rightarrow> bool" where
  "py_isspace c =
     (let n = (of_char c :: nat)
      in (9 \<le> n \<and> n \<le> 13) \<or> (28 \<le> n \<and> n \<le> 32) \<or> n = 133 \<or> n = 160)"

definition py_strip :: "string \<Rightarrow> string" where
  "py_strip s = rev (dropWhile py_isspace (rev (dropWhile py_isspace s)))"

text \<open>
  \<open>s.split(sep)\<close> for a separator that is not empty: the occurrences of \<open>sep\<close> are
  found from the left and do not overlap; \<open>cur\<close> is the piece read so far.
\<close>

fun split_from :: "string \<Rightarrow> string \<Rightarrow> string \<Rightarrow> string list" where
  "split_from sep cur [] = [cur]"
| "split_from sep cur (c # cs) =
     (if sep \<noteq> [] \<and> take (length sep) (c # cs) = sep
      then cur # split_from sep [] (drop (length sep) (c # cs))
      else split_from sep (cur @ [c]) cs)"

definition py_split :: "string \<Rightarrow> string \<Rightarrow> string list" where
  "py_split s sep = split_from sep [] s"

text \<open>\<open>s.split()\<close>: the maximal runs of characters that are not whitespace.\<close>

fun words_from :: "string \<Rightarrow> string \<Rightarrow> string list" where
  "words_from cur [] = (if cur = [] then [] else [cur])"
| "words_from cur (c # cs) =
     (if py_isspace c
      then (if cur = [] then words_from [] cs else cur # words_from [] cs)
      else words_from (cur @ [c]) cs)"

definition py_split_ws :: "string \<Rightarrow> string list" where
  "py_split_ws s = words_from [] s"

fun py_join :: "string \<Rightarrow> string list \<Rightarrow> string" where
  "py_join sep [] = []"
| "py_join sep [x] = x"
| "py_join sep (x # y # ys) = x @ sep @ py_join sep (y # ys)"

definition lower_char :: "char \<Rightarrow> char" where
  "lower_char c =
     (let n = (of_char c :: nat)
      in if (65 \<le> n \<and> n \<le> 90) \<or> (192 \<le> n \<and> n \<le> 222 \<and> n \<noteq> 215)
         then char_of (n + 32) else c)"

definition py_lower :: "string \<Rightarrow> string" where
  "py_lower s = map lower_char s"

subsection \<open>\<open>int(x)\<close>\<close>

definition is_digit :: "char \<Rightarrow> bool" where
  "is_digit c = (let n = (of_char c :: nat) in 48 \<le> n \<and> n \<le> 57)"

definition digit_val :: "char \<Rightarrow> nat" where
  "digit_val c = of_char c - 48"

text \<open>
  The digits after the first one: a single underscore may stand between two digits.
\<close>

fun dec_digits :: "nat \<Rightarrow> string \<Rightarrow> nat option" where
  "dec_digits acc [] = Some acc"
| "dec_digits acc [c] = (if is_digit c then Some (10 * acc + digit_val c) else None)"
| "dec_digits acc (c # d # ds) =
     (if is_digit c then dec_digits (10 * acc + digit_val c) (d # ds)
      else if c = CHR ''_'' \<and> is_digit d then dec_digits (10 * acc + digit_val d) ds
      else None)"

definition dec_number :: "string \<Rightarrow> nat option" where
  "dec_number s =
     (case s of [] \<Rightarrow> None
      | c # cs \<Rightarrow> if is_digit c then dec_digits (digit_val c) cs else None)"

text \<open>
  \<open>int(s)\<close> on a string. The whitespace it skips at both ends is not that of
  \<open>strip\<close>: the separators 0x1C to 0x1F are not skipped. A sign may follow, then the
  digits. A literal of more than 4300 digits is refused; the zeros in front count, the
  underscores do not.
\<close>

definition int_isspace :: "char \<Rightarrow> bool" where
  "int_isspace c =
     (let n = (of_char c :: nat)
      in (9 \<le> n \<and> n \<le> 13) \<or> n = 32 \<or> n = 133 \<or> n = 160)"

definition int_strip :: "string \<Rightarrow> string" where
  "int_strip s = rev (dropWhile int_isspace (rev (dropWhile int_isspace s)))"

definition dec_literal :: "string \<Rightarrow> nat option" where
  "dec_literal s =
     (if max_str_digits < length (filter is_digit s) then None else dec_number s)"

definition int_of_str :: "string \<Rightarrow> int option" where
  "int_of_str s =
     (case int_strip s of
        [] \<Rightarrow> None
      | c # cs \<Rightarrow>
          if c = CHR ''-'' then map_option (\<lambda>n. - int n) (dec_literal cs)
          else if c = CHR ''+'' then map_option int (dec_literal cs)
          else map_option int (dec_literal (c # cs)))"

fun py_int :: "pyval \<Rightarrow> pyexn + int" where
  "py_int (PInt i) = Inr i"
| "py_int (PBool b) = Inr (if b then 1 else 0)"
| "py_int (PFloat q) = Inr (if 0 \<le> q then \<lfloor>q\<rfloor> else \<lceil>q\<rceil>)"
| "py_int (PStr s) = (case int_of_str s of Some i \<Rightarrow> Inr i | None \<Rightarrow> Inl ValueError)"
| "py_int v = Inl TypeError"

section \<open>The scholarly adapter\<close>

subsection \<open>What the adapter calls\<close>

text \<open>
  The adapter's collaborators are parameters of the model.
  \<^item> \<open>fill\<close> is \<open>scholarly.fill\<close>: it returns the expanded record or raises.
  \<^item> \<open>search_pubs\<close> is \<open>scholarly.search_pubs\<close>: it raises, or returns a generator. A
    generator is the list of the records it yields and how it ends: \<open>None\<close> when it
    is exhausted, \<open>Some e\<close> when the pull after the last record raises \<open>e\<close>.
  \<^item> \<open>coerce_str\<close> and \<open>coerce_int\<close> are the conversions pydantic tries on a value
    that is not of the field's type already (they differ between its versions).
  \<^item> \<open>str_of\<close> is the text \<open>str(x)\<close> returns for a value that is not a string,
    \<open>exn_str\<close> is \<open>str(e)\<close> on an exception.
\<close>

type_synonym generator = "pyval list \<times> pyexn option"

record env =
  fill :: "pyval \<Rightarrow> pyexn + pyval"
  search_pubs :: "string \<Rightarrow> pyexn + generator"
  coerce_str :: "pyval \<Rightarrow> string option"
  coerce_int :: "pyval \<Rightarrow> int option"
  str_of :: "pyval \<Rightarrow> string"
  exn_str :: "pyexn \<Rightarrow> string"

text \<open>
  \<open>str(x)\<close>, which an f-string calls too: it raises on a value that holds a huge
  integer, and otherwise a string is itself and every other value is written by
  \<open>str_of\<close>.
\<close>

definition str_text :: "env \<Rightarrow> pyval \<Rightarrow> string" where
  "str_text E v = (case v of PStr s \<Rightarrow> s | _ \<Rightarrow> str_of E v)"

definition py_str :: "env \<Rightarrow> pyval \<Rightarrow> pyexn + string" where
  "py_str E v = (if has_huge_int v then Inl ValueError else Inr (str_text E v))"

subsection \<open>The Publication model\<close>

record Publication =
  title :: string
  authors :: "string list"
  year :: "int option"
  abstract :: "string option"
  venue :: "string option"
  citations :: "int option"
  url :: "string option"
  bibtex :: "string option"
  scholar_url :: "string option"

text \<open>
  Field validation, \<open>None\<close> when pydantic rejects the value. A string is a \<open>str\<close>
  and an integer an \<open>int\<close> as they are; \<open>None\<close>, a list and a dictionary are
  neither; the other values go through the version's conversion.
\<close>

definition validate_str :: "env \<Rightarrow> pyval \<Rightarrow> string option" where
  "validate_str E v =
     (case v of
        PStr s \<Rightarrow> Some s
      | PBool b \<Rightarrow> coerce_str E v
      | PInt i \<Rightarrow> coerce_str E v
      | PFloat q \<Rightarrow> coerce_str E v
      | _ \<Rightarrow> None)"

definition validate_int :: "env \<Rightarrow> pyval \<Rightarrow> int option" where
  "validate_int E v =
     (case v of
        PInt i \<Rightarrow> Some i
      | PBool b \<Rightarrow> coerce_int E v
      | PFloat q \<Rightarrow> coerce_int E v
      | PStr s \<Rightarrow> coerce_int E v
      | _ \<Rightarrow> None)"

definition validate_opt_str :: "env \<Rightarrow> pyval \<Rightarrow> string option option" where
  "validate_opt_str E v =
     (case v of PNone \<Rightarrow> Some None | _ \<Rightarrow> map_option Some (validate_str E v))"

definition validate_opt_int :: "env \<Rightarrow> pyval \<Rightarrow> int option option" where
  "validate_opt_int E v =
     (case v of PNone \<Rightarrow> Some None | _ \<Rightarrow> map_option Some (validate_int E v))"

definition validate_str_list :: "env \<Rightarrow> pyval \<Rightarrow> string list option" where
  "validate_str_list E v =
     (case v of PList xs \<Rightarrow> those (map (validate_str E) xs) | _ \<Rightarrow> None)"

text \<open>
  \<open>Publication(title=..., authors=..., year=..., ...)\<close>: every field is validated, and
  one rejected field raises the validation error.
\<close>

definition Publication_init ::
  "env \<Rightarrow> pyval \<Rightarrow> pyval \<Rightarrow> pyval \<Rightarrow> pyval \<Rightarrow> pyval \<Rightarrow> pyval \<Rightarrow> pyval \<Rightarrow> pyval \<Rightarrow> pyval
     \<Rightarrow> pyexn + Publication" where
  "Publication_init E t a y ab v c u b s =
     (case
        Option.bind (validate_str E t) (\<lambda>t'.
        Option.bind (validate_str_list E a) (\<lambda>a'.
        Option.bind (validate_opt_int E y) (\<lambda>y'.
        Option.bind (validate_opt_str E ab) (\<lambda>ab'.
        Option.bind (validate_opt_str E v) (\<lambda>v'.
        Option.bind (validate_opt_int E c) (\<lambda>c'.
        Option.bind (validate_opt_str E u) (\<lambda>u'.
        Option.bind (validate_opt_str E b) (\<lambda>b'.
        Option.bind (validate_opt_str E s) (\<lambda>s'.
          Some \<lparr>title = t', authors = a', year = y', abstract = ab', venue = v',
                citations = c', url = u', bibtex = b', scholar_url = s'\<rparr>)))))))))
      of None \<Rightarrow> Inl ValidationError | Some p \<Rightarrow> Inr p)"

subsection \<open>\<open>parse_publication\<close>\<close>

text \<open>The authors, from what \<open>bib.get('author', '')\<close> returned.\<close>

definition authors_of :: "pyval \<Rightarrow> pyval" where
  "authors_of a =
     (case a of
        PStr s \<Rightarrow> PList (map (\<lambda>x. PStr (py_strip x)) (py_split s '' and ''))
      | PList xs \<Rightarrow> PList xs
      | _ \<Rightarrow> PList [])"

text \<open>
  The year, from \<open>bib.get('pub_year') or bib.get('year')\<close>: a true value is replaced
  by its \<open>int\<close>, or by \<open>None\<close> when \<open>int\<close> raises; a false one stays as it is.
\<close>

definition year_of :: "pyval \<Rightarrow> pyval" where
  "year_of y =
     (if truthy y then (case py_int y of Inr i \<Rightarrow> PInt i | Inl e \<Rightarrow> PNone) else y)"

text \<open>The body of the \<open>try\<close>, after the optional expansion.\<close>

definition parse_body :: "env \<Rightarrow> pyval \<Rightarrow> pyexn + Publication" where
  "parse_body E pub =
     and_then (py_get pub ''bib'' (PDict [])) (\<lambda>bib.
     and_then (py_get bib ''author'' (PStr [])) (\<lambda>a.
     and_then (py_get bib ''pub_year'' PNone) (\<lambda>y1.
     and_then (py_get bib ''year'' PNone) (\<lambda>y2.
     and_then (py_get bib ''title'' (PStr ''Unknown Title'')) (\<lambda>t.
     and_then (py_get bib ''abstract'' (PStr [])) (\<lambda>ab.
     and_then (py_get bib ''venue'' (PStr [])) (\<lambda>v1.
     and_then (py_get bib ''journal'' (PStr [])) (\<lambda>v2.
     and_then (py_get bib ''booktitle'' (PStr [])) (\<lambda>v3.
     and_then (py_get pub ''num_citations'' (PInt 0)) (\<lambda>c.
     and_then (py_get pub ''pub_url'' (PStr [])) (\<lambda>u.
     and_then (py_get pub ''bibtex'' (PStr [])) (\<lambda>b.
     and_then (py_get pub ''url_scholarbib'' (PStr [])) (\<lambda>s.
       Publication_init E t (authors_of a) (year_of (py_or y1 y2)) ab
         (py_or v1 (py_or v2 v3)) c u b s)))))))))))))"

text \<open>
  The handler of \<open>except Exception\<close>: it reads the title again, from the record
  \<open>pub\<close> names at that point, and leaves every other field at its default.
\<close>

definition parse_recover :: "env \<Rightarrow> pyval \<Rightarrow> pyexn + Publication" where
  "parse_recover E pub =
     and_then (py_get pub ''bib'' (PDict [])) (\<lambda>bib.
     and_then (py_get bib ''title'' (PStr ''Unknown'')) (\<lambda>t.
     and_then (py_str E t) (\<lambda>salvaged.
       Publication_init E (PStr salvaged) (PList []) PNone PNone PNone PNone PNone
         PNone PNone)))"

text \<open>
  \<open>pub = scholarly.fill(pub)\<close> rebinds \<open>pub\<close> only when \<open>fill\<close> returns:
  \<open>expanded\<close> is the record that \<open>pub\<close> names when the handler runs.
\<close>

definition expanded :: "env \<Rightarrow> pyval \<Rightarrow> bool \<Rightarrow> pyval" where
  "expanded E pub fill_details =
     (if fill_details then (case fill E pub of Inr p \<Rightarrow> p | Inl e \<Rightarrow> pub) else pub)"

definition parse_try :: "env \<Rightarrow> pyval \<Rightarrow> bool \<Rightarrow> pyexn + Publication" where
  "parse_try E pub fill_details =
     and_then (if fill_details then fill E pub else Inr pub) (parse_body E)"

definition parse_publication :: "env \<Rightarrow> pyval \<Rightarrow> bool \<Rightarrow> pyexn + Publication" where
  "parse_publication E pub fill_details =
     (case parse_try E pub fill_details of
        Inr p \<Rightarrow> Inr p
      | Inl e \<Rightarrow> parse_recover E (expanded E pub fill_details))"

subsection \<open>The search endpoint\<close>

datatype http_exception = HTTPException int string

record SearchResult =
  publications :: "Publication list"
  total_results :: "int option"
  query :: string

text \<open>
  \<open>for i, pub in enumerate(search_query)\<close>: each round pulls the next record first
  (the generator may be exhausted, or raise) and only then compares \<open>i\<close> with
  \<open>limit\<close>; \<open>acc\<close> is the list \<open>publications\<close>.
\<close>

fun search_loop ::
  "env \<Rightarrow> int \<Rightarrow> nat \<Rightarrow> pyval list \<Rightarrow> pyexn option \<Rightarrow> Publication list
     \<Rightarrow> pyexn + Publication list" where
  "search_loop E limit i [] None acc = Inr acc"
| "search_loop E limit i [] (Some e) acc = Inl e"
| "search_loop E limit i (pub # rest) t acc =
     (if limit \<le> int i then Inr acc
      else (case parse_publication E pub False of
              Inl e \<Rightarrow> Inl e
            | Inr p \<Rightarrow> search_loop E limit (Suc i) rest t (acc @ [p])))"

definition search_publications :: "env \<Rightarrow> string \<Rightarrow> int \<Rightarrow> http_exception + SearchResult" where
  "search_publications E q limit =
     (case and_then (search_pubs E q) (\<lambda>g.
           and_then (search_loop E limit 0 (fst g) (snd g) []) (\<lambda>pubs.
             Inr \<lparr>publications = pubs, total_results = Some (int (length pubs)),
                  query = q\<rparr>))
      of Inr r \<Rightarrow> Inr r
       | Inl e \<Rightarrow> Inl (HTTPException 500 (''Search failed: '' @ exn_str E e)))"

subsection \<open>The lookups\<close>

text \<open>
  Inside a lookup an \<open>HTTPException\<close> is raised as it is (\<open>except HTTPException: raise\<close>)
  and every other exception becomes the status 500 with the endpoint's message.
\<close>

datatype failure = Http http_exception | Py pyexn

definition lift_py :: "pyexn + 'a \<Rightarrow> failure + 'a" where
  "lift_py m = (case m of Inl e \<Rightarrow> Inl (Py e) | Inr x \<Rightarrow> Inr x)"

definition to_http :: "env \<Rightarrow> string \<Rightarrow> failure + 'a \<Rightarrow> http_exception + 'a" where
  "to_http E msg m =
     (case m of
        Inr x \<Rightarrow> Inr x
      | Inl (Http h) \<Rightarrow> Inl h
      | Inl (Py e) \<Rightarrow> Inl (HTTPException 500 (msg @ exn_str E e)))"

text \<open>\<open>next(search_query, None)\<close>.\<close>

fun py_next :: "generator \<Rightarrow> pyexn + pyval" where
  "py_next ([], None) = Inr PNone"
| "py_next ([], Some e) = Inl e"
| "py_next (x # xs, t) = Inr x"

text \<open>The first lines of each lookup: search, take the first candidate, 404 without one.\<close>

definition first_match :: "env \<Rightarrow> string \<Rightarrow> failure + pyval" where
  "first_match E ttl =
     and_then (lift_py (search_pubs E ttl)) (\<lambda>g.
     and_then (lift_py (py_next g)) (\<lambda>paper.
       if truthy paper then Inr paper
       else Inl (Http (HTTPException 404 ''Paper not found''))))"

subsection \<open>Similar papers\<close>

record SimilarPapersResult =
  similar_papers :: "Publication list"
  original_title :: string

text \<open>\<open>pub.get('bib', {}).get('title', '')\<close> and \<open>x.lower()\<close>, which only a string has.\<close>

definition pub_title :: "pyval \<Rightarrow> pyexn + pyval" where
  "pub_title pub = and_then (py_get pub ''bib'' (PDict [])) (\<lambda>bib. py_get bib ''title'' (PStr []))"

definition str_lower :: "pyval \<Rightarrow> pyexn + string" where
  "str_lower v = (case v of PStr s \<Rightarrow> Inr (py_lower s) | _ \<Rightarrow> Inl AttributeError)"

text \<open>\<open>xs[:n]\<close>; a negative \<open>n\<close> counts from the end.\<close>

definition py_slice_to :: "'a list \<Rightarrow> int \<Rightarrow> 'a list" where
  "py_slice_to xs n = (if 0 \<le> n then take (nat n) xs else take (length xs - nat (- n)) xs)"

fun similar_loop ::
  "env \<Rightarrow> int \<Rightarrow> string \<Rightarrow> nat \<Rightarrow> pyval list \<Rightarrow> pyexn option \<Rightarrow> Publication list
     \<Rightarrow> pyexn + Publication list" where
  "similar_loop E limit ot i [] None acc = Inr acc"
| "similar_loop E limit ot i [] (Some e) acc = Inl e"
| "similar_loop E limit ot i (pub # rest) t acc =
     (if limit + 1 \<le> int i then Inr acc
      else (case and_then (pub_title pub) str_lower of
              Inl e \<Rightarrow> Inl e
            | Inr l \<Rightarrow>
                if l \<noteq> py_lower ot
                then (case parse_publication E pub False of
                        Inl e \<Rightarrow> Inl e
                      | Inr p \<Rightarrow> similar_loop E limit ot (Suc i) rest t (acc @ [p]))
                else similar_loop E limit ot (Suc i) rest t acc))"

definition keywords_of :: "string \<Rightarrow> string" where
  "keywords_of ot = py_join '' '' (take 5 (py_split_ws ot))"

definition get_similar_papers ::
  "env \<Rightarrow> string \<Rightarrow> int \<Rightarrow> http_exception + SimilarPapersResult" where
  "get_similar_papers E ttl limit =
     to_http E ''Failed to find similar papers: ''
      (and_then (first_match E ttl) (\<lambda>paper.
       and_then (lift_py (py_get paper ''bib'' (PDict []))) (\<lambda>bib.
       and_then (lift_py (py_get bib ''title'' (PStr ttl))) (\<lambda>original.
         case original of
           PStr ot \<Rightarrow>
             and_then (lift_py (search_pubs E (keywords_of ot))) (\<lambda>g.
             and_then (lift_py (similar_loop E limit ot 0 (fst g) (snd g) [])) (\<lambda>sims.
               Inr \<lparr>similar_papers = py_slice_to sims limit, original_title = ot\<rparr>))
         | _ \<Rightarrow> Inl (Py AttributeError)))))"

subsection \<open>BibTeX\<close>

definition NL :: string where
  "NL = [CHR 0x0A]"

text \<open>\<open>k in x\<close>: a substring of a string, an element of a list, a key of a dictionary.\<close>

fun is_infix :: "string \<Rightarrow> string \<Rightarrow> bool" where
  "is_infix k [] = (k = [])"
| "is_infix k (c # cs) = (take (length k) (c # cs) = k \<or> is_infix k cs)"

definition py_in :: "string \<Rightarrow> pyval \<Rightarrow> pyexn + bool" where
  "py_in k x =
     (case x of
        PStr s \<Rightarrow> Inr (is_infix k s)
      | PList xs \<Rightarrow> Inr (PStr k \<in> set xs)
      | PDict d \<Rightarrow> Inr (k \<in> set (map fst d))
      | _ \<Rightarrow> Inl TypeError)"

definition entry_type_of :: "pyval \<Rightarrow> pyexn + string" where
  "entry_type_of bib =
     and_then (py_in ''booktitle'' bib) (\<lambda>bt.
       if bt then Inr ''inproceedings''
       else and_then (py_in ''journal'' bib) (\<lambda>j.
         if j then Inr ''article''
         else and_then (py_in ''venue'' bib) (\<lambda>v.
           if v then Inr ''article'' else Inr ''misc'')))"

text \<open>
  The cite key: the last word of the first author, in lower case, and the year.
\<close>

definition first_author_of :: "pyval \<Rightarrow> pyexn + pyval" where
  "first_author_of author =
     and_then (py_in '' and '' author) (\<lambda>c.
       if c
       then (case author of
               PStr s \<Rightarrow> (case py_split s '' and '' of
                            [] \<Rightarrow> Inl IndexError
                          | x # xs \<Rightarrow> Inr (PStr x))
             | _ \<Rightarrow> Inl AttributeError)
       else Inr author)"

definition last_name_of :: "pyval \<Rightarrow> pyexn + string" where
  "last_name_of first_author =
     (if truthy first_author
      then (case first_author of
              PStr f \<Rightarrow> (case py_split_ws f of
                           [] \<Rightarrow> Inl IndexError
                         | w # ws \<Rightarrow> Inr (last (w # ws)))
            | _ \<Rightarrow> Inl AttributeError)
      else Inr ''unknown'')"

definition cite_key_of :: "env \<Rightarrow> pyval \<Rightarrow> pyval \<Rightarrow> pyexn + string" where
  "cite_key_of E author y =
     and_then (first_author_of author) (\<lambda>first_author.
     and_then (last_name_of first_author) (\<lambda>last_name.
     and_then (py_str E y) (\<lambda>year_text.
       Inr (py_lower last_name @ year_text))))"

text \<open>
  The entry built when the record supplies no \<open>bibtex\<close>. The result is the value the
  variable \<open>title\<close> is rebound to, and the text.
\<close>

definition synth_bibtex :: "env \<Rightarrow> pyval \<Rightarrow> pyexn + pyval \<times> string" where
  "synth_bibtex E bib =
     and_then (entry_type_of bib) (\<lambda>entry_type.
     and_then (py_get bib ''author'' (PStr ''Unknown'')) (\<lambda>author.
     and_then (py_get bib ''title'' (PStr ''Unknown'')) (\<lambda>t.
     and_then (py_get bib ''year'' (PStr [])) (\<lambda>y0.
     and_then (py_get bib ''pub_year'' y0) (\<lambda>y.
     and_then (py_get bib ''venue'' (PStr [])) (\<lambda>v1.
     and_then (py_get bib ''journal'' (PStr [])) (\<lambda>v2.
     and_then (py_get bib ''booktitle'' (PStr [])) (\<lambda>v3.
     and_then (cite_key_of E author y) (\<lambda>cite_key.
     and_then (py_str E author) (\<lambda>author_text.
     and_then (py_str E t) (\<lambda>title_text.
       let v = py_or v1 (py_or v2 v3);
           b1 = ''@'' @ entry_type @ ''{'' @ cite_key @ '','' @ NL;
           b2 = b1 @ ''  author = {'' @ author_text @ ''},'' @ NL;
           b3 = b2 @ ''  title = {'' @ title_text @ ''},'' @ NL
       in
     and_then (if truthy y
               then and_then (py_str E y) (\<lambda>year_text.
                      Inr (b3 @ ''  year = {'' @ year_text @ ''},'' @ NL))
               else Inr b3) (\<lambda>b4.
     and_then (if truthy v
               then and_then (py_str E v) (\<lambda>venue_text.
                      if entry_type = ''inproceedings''
                      then Inr (b4 @ ''  booktitle = {'' @ venue_text @ ''},'' @ NL)
                      else Inr (b4 @ ''  journal = {'' @ venue_text @ ''},'' @ NL))
               else Inr b4) (\<lambda>b5.
       Inr (t, b5 @ ''}''))))))))))))))"

definition get_bibtex :: "env \<Rightarrow> string \<Rightarrow> http_exception + pyval" where
  "get_bibtex E ttl =
     to_http E ''Failed to get BibTeX: ''
      (and_then (first_match E ttl) (\<lambda>found.
       and_then (lift_py (fill E found)) (\<lambda>paper.
       and_then (lift_py (py_get paper ''bib'' (PDict []))) (\<lambda>bib.
       and_then (lift_py (py_get paper ''bibtex'' (PStr []))) (\<lambda>supplied.
       and_then (lift_py (if truthy supplied then Inr (PStr ttl, supplied)
                          else and_then (synth_bibtex E bib) (\<lambda>r. Inr (fst r, PStr (snd r)))))
         (\<lambda>r.
       and_then (lift_py (py_get bib ''title'' (fst r))) (\<lambda>t.
       and_then (lift_py (py_get bib ''author'' (PStr []))) (\<lambda>a.
       and_then (lift_py (py_get bib ''year'' (PStr []))) (\<lambda>y0.
       and_then (lift_py (py_get bib ''pub_year'' y0)) (\<lambda>y.
       and_then (lift_py (py_get bib ''venue'' (PStr []))) (\<lambda>v1.
       and_then (lift_py (py_get bib ''journal'' (PStr []))) (\<lambda>v2.
         Inr (PDict [(''title'', t), (''bibtex'', snd r), (''authors'', a), (''year'', y),
                     (''venue'', py_or v1 v2)])))))))))))))"

subsection \<open>Notions the properties use\<close>

text \<open>
  An entry matches the original title when the lower-case form of its title, read as
  the loop reads it, is the lower-case form of the original title.
\<close>

definition title_matches :: "string \<Rightarrow> pyval \<Rightarrow> bool" where
  "title_matches ot pub = (and_then (pub_title pub) str_lower = Inr (py_lower ot))"

text \<open>
  The entry type in the words of the specification: \<open>inproceedings\<close> if a
  \<open>booktitle\<close> field is present, else \<open>misc\<close> if neither a \<open>journal\<close> nor a \<open>venue\<close>
  field is present, else \<open>article\<close>. It is compared with \<open>entry_type_of\<close> below.
\<close>

definition spec_entry_type :: "(string \<times> pyval) list \<Rightarrow> string" where
  "spec_entry_type bib =
     (if ''booktitle'' \<in> fst ` set bib then ''inproceedings''
      else if ''journal'' \<notin> fst ` set bib \<and> ''venue'' \<notin> fst ` set bib then ''misc''
      else ''article'')"

subsection \<open>A concrete environment\<close>

text \<open>
  The examples run in this environment: \<open>fill\<close> returns the record as it is, every
  search returns an exhausted generator, pydantic converts nothing to \<open>str\<close> and
  converts to \<open>int\<close> what \<open>int(x)\<close> accepts, \<open>str\<close> writes \<open>None\<close>, the booleans
  and the integers as Python does, and an external exception prints as its text.
\<close>

function dec_of_nat :: "nat \<Rightarrow> string" where
  "dec_of_nat n =
     (if n < 10 then [char_of (48 + n)]
      else dec_of_nat (n div 10) @ [char_of (48 + n mod 10)])"
  by pat_completeness auto
termination
  by (relation "measure id") auto

declare dec_of_nat.simps [simp del]

definition demo_str :: "pyval \<Rightarrow> string" where
  "demo_str v =
     (case v of
        PNone \<Rightarrow> ''None''
      | PBool b \<Rightarrow> (if b then ''True'' else ''False'')
      | PInt i \<Rightarrow> (if i < 0 then ''-'' @ dec_of_nat (nat (- i)) else dec_of_nat (nat i))
      | PStr s \<Rightarrow> s
      | _ \<Rightarrow> ''?'')"

definition demo_int :: "pyval \<Rightarrow> int option" where
  "demo_int v = (case py_int v of Inr i \<Rightarrow> Some i | Inl e \<Rightarrow> None)"

definition demo_exn_str :: "pyexn \<Rightarrow> string" where
  "demo_exn_str e = (case e of OtherError m \<Rightarrow> m | _ \<Rightarrow> ''error'')"

definition demo_env :: env where
  "demo_env =
     \<lparr>fill = (\<lambda>p. Inr p), search_pubs = (\<lambda>q. Inr ([], None)),
      coerce_str = (\<lambda>v. None), coerce_int = demo_int,
      str_of = demo_str, exn_str = demo_exn_str\<rparr>"

text \<open>
  Four records, the library that finds one given record for every query, and the
  library that finds the first three.
\<close>

definition rec_a :: pyval where
  "rec_a = PDict [(''bib'', PDict [(''title'', PStr ''Deep learning''),
                                   (''author'', PStr ''Ada Lovelace and Charles Babbage''),
                                   (''pub_year'', PStr ''1843''),
                                   (''booktitle'', PStr ''Analytical Engines'')]),
                  (''num_citations'', PInt 7)]"

definition rec_b :: pyval where
  "rec_b = PDict [(''bib'', PDict [(''title'', PStr ''DEEP LEARNING''),
                                   (''author'', PList [PStr ''G Boole''])])]"

definition rec_c :: pyval where
  "rec_c = PDict [(''bib'', PDict [(''title'', PStr ''Zeolites''),
                                   (''author'', PStr ''M Curie''),
                                   (''pub_year'', PStr ''NA'')])]"

definition rec_d :: pyval where
  "rec_d = PDict [(''bib'', PDict [(''title'', PStr ''On radioactivity''),
                                   (''author'', PStr ''Marie Curie''),
                                   (''pub_year'', PStr ''1898''),
                                   (''journal'', PStr ''Comptes Rendus'')])]"

definition library_of :: "pyval \<Rightarrow> env" where
  "library_of r = demo_env\<lparr>search_pubs := (\<lambda>q. Inr ([r], None))\<rparr>"

definition library_env :: env where
  "library_env = demo_env\<lparr>search_pubs := (\<lambda>q. Inr ([rec_a, rec_b, rec_c], None))\<rparr>"

text \<open>A library whose generator yields one record and raises on the next pull.\<close>

definition flaky_env :: env where
  "flaky_env =
     demo_env\<lparr>search_pubs := (\<lambda>q. Inr ([rec_a], Some (OtherError ''Cannot fetch'')))\<rparr>"

section \<open>The OCR function\<close>

subsection \<open>What the function calls\<close>

text \<open>
  The collaborators of the handler are parameters of the model.
  \<^item> \<open>json_loads\<close> and \<open>exc_str\<close> are \<open>json.loads\<close> and \<open>str(e)\<close>; \<open>json_dumps\<close> is
    the text \<open>json.dumps\<close> returns.
  \<^item> \<open>import_paddleocr\<close> and \<open>import_ppstructure\<close> are what the two imports from
    \<open>paddleocr\<close> raise, \<open>None\<close> when they succeed.
  \<^item> \<open>b64decode\<close> is \<open>base64.b64decode\<close>; bytes are a string.
  \<^item> \<open>new_temp_file\<close> is \<open>NamedTemporaryFile(delete=False, suffix='.png')\<close>: given the
    files that exist it raises, or creates a file and returns its name.
  \<^item> \<open>write_file\<close> and \<open>urlretrieve\<close> fill the file; they return what they raise.
  \<^item> \<open>ocr_predict\<close> is \<open>PaddleOCR(...).predict(input=image_path)\<close>, read to its end.
  \<^item> \<open>to_float\<close> is \<open>float(x)\<close>.
  \<^item> \<open>structure_run\<close> is \<open>PPStructure(...)(image_path)\<close>, read to its end.
  The file system is the set of the names of the files that exist.
\<close>

record ocr_res =
  rec_texts :: "pyval list option"
  rec_scores :: "pyval list option"
  dt_polys :: "pyval list option"

record ocr_env =
  json_loads :: "pyval \<Rightarrow> pyexn + pyval"
  json_dumps :: "pyval \<Rightarrow> string"
  exc_str :: "pyexn \<Rightarrow> string"
  import_paddleocr :: "pyexn option"
  import_ppstructure :: "pyexn option"
  b64decode :: "pyval \<Rightarrow> pyexn + string"
  new_temp_file :: "string set \<Rightarrow> pyexn + string"
  write_file :: "string \<Rightarrow> string \<Rightarrow> pyexn option"
  urlretrieve :: "pyval \<Rightarrow> string \<Rightarrow> pyexn option"
  ocr_predict :: "string option \<Rightarrow> pyexn + ocr_res list"
  to_float :: "pyval \<Rightarrow> pyexn + rat"
  structure_run :: "string option \<Rightarrow> pyexn + pyval list"

record response =
  statusCode :: int
  headers :: "(string \<times> string) list"
  body :: string

text \<open>
  \<open>json.dumps(x)\<close> raises on a huge integer. The dictionaries the handler writes
  itself hold none, so for them \<open>json_dumps\<close> is used as it is.
\<close>

definition py_dumps :: "ocr_env \<Rightarrow> pyval \<Rightarrow> pyexn + string" where
  "py_dumps E v = (if has_huge_int v then Inl ValueError else Inr (json_dumps E v))"

definition cors_headers :: "(string \<times> string) list" where
  "cors_headers =
     [(''Access-Control-Allow-Origin'', ''*''),
      (''Access-Control-Allow-Headers'', ''Content-Type''),
      (''Access-Control-Allow-Methods'', ''POST, OPTIONS''),
      (''Content-Type'', ''application/json'')]"

subsection \<open>\<open>fallback_ocr_response\<close>\<close>

definition fallback_ocr_response ::
  "ocr_env \<Rightarrow> pyval \<Rightarrow> (string \<times> string) list \<Rightarrow> response" where
  "fallback_ocr_response E request_body hdrs =
     \<lparr>statusCode = 200, headers = hdrs,
      body = json_dumps E (PDict
        [(''success'', PBool True),
         (''fallback'', PBool True),
         (''message'', PStr ''PaddleOCR not available on server. Using client-side extraction.''),
         (''text_blocks'', PList []),
         (''tables'', PList []),
         (''figures'', PList []),
         (''formulas'', PList []),
         (''raw_text'', PStr []),
         (''use_client_ocr'', PBool True)])\<rparr>"

subsection \<open>\<open>process_with_paddleocr\<close>\<close>

definition py_index :: "'a list \<Rightarrow> nat \<Rightarrow> pyexn + 'a" where
  "py_index xs i = (if i < length xs then Inr (xs ! i) else Inl IndexError)"

text \<open>The block of the text at index \<open>i\<close> of one result.\<close>

definition text_block :: "ocr_env \<Rightarrow> ocr_res \<Rightarrow> nat \<Rightarrow> pyval \<Rightarrow> pyexn + pyval" where
  "text_block E res i txt =
     and_then
       (case rec_scores res of
          Some scores \<Rightarrow>
            and_then (py_index scores i) (\<lambda>x.
            and_then (to_float E x) (\<lambda>q. Inr (PFloat q)))
        | None \<Rightarrow> Inr (PFloat 1))
       (\<lambda>confidence.
     and_then
       (case dt_polys res of Some polys \<Rightarrow> py_index polys i | None \<Rightarrow> Inr PNone)
       (\<lambda>bbox.
         Inr (PDict [(''text'', txt), (''confidence'', confidence), (''bbox'', bbox)])))"

fun blocks_from :: "ocr_env \<Rightarrow> ocr_res \<Rightarrow> nat \<Rightarrow> pyval list \<Rightarrow> pyexn + pyval list" where
  "blocks_from E res i [] = Inr []"
| "blocks_from E res i (txt # rest) =
     (case text_block E res i txt of
        Inl e \<Rightarrow> Inl e
      | Inr b \<Rightarrow> (case blocks_from E res (Suc i) rest of
                    Inl e \<Rightarrow> Inl e
                  | Inr bs \<Rightarrow> Inr (b # bs)))"

text \<open>The loop over the results: the text blocks and \<open>all_text\<close>.\<close>

fun text_pass :: "ocr_env \<Rightarrow> ocr_res list \<Rightarrow> pyexn + pyval list \<times> pyval list" where
  "text_pass E [] = Inr ([], [])"
| "text_pass E (res # rest) =
     (case (case rec_texts res of
              Some texts \<Rightarrow> and_then (blocks_from E res 0 texts) (\<lambda>bs. Inr (bs, texts))
            | None \<Rightarrow> Inr ([], [])) of
        Inl e \<Rightarrow> Inl e
      | Inr here \<Rightarrow> (case text_pass E rest of
                       Inl e \<Rightarrow> Inl e
                     | Inr later \<Rightarrow> Inr (fst here @ fst later, snd here @ snd later)))"

text \<open>\<open>' '.join(all_text)\<close>: every item has to be a string.\<close>

definition join_texts :: "pyval list \<Rightarrow> pyexn + string" where
  "join_texts xs =
     (case those (map (\<lambda>v. case v of PStr s \<Rightarrow> Some s | _ \<Rightarrow> None) xs) of
        Some ss \<Rightarrow> Inr (py_join '' '' ss)
      | None \<Rightarrow> Inl TypeError)"

text \<open>One item of the structure result: the tables, figures and formulas it adds.\<close>

definition structure_item :: "pyval \<Rightarrow> pyexn + pyval list \<times> pyval list \<times> pyval list" where
  "structure_item item =
     and_then (py_get item ''type'' (PStr ''text'')) (\<lambda>item_type.
       if item_type = PStr ''table'' then
         and_then (py_get item ''bbox'' (PList [])) (\<lambda>bbox.
         and_then (py_get item ''res'' (PDict [])) (\<lambda>r1.
         and_then (py_get r1 ''html'' (PStr [])) (\<lambda>html.
         and_then (py_get item ''res'' (PDict [])) (\<lambda>r2.
         and_then (py_get r2 ''cells'' (PList [])) (\<lambda>cells.
           Inr ([PDict [(''type'', PStr ''table''), (''bbox'', bbox), (''html'', html),
                        (''cells'', cells)]], [], []))))))
       else if item_type = PStr ''figure'' then
         and_then (py_get item ''bbox'' (PList [])) (\<lambda>bbox.
         and_then (py_get item ''res'' (PDict [])) (\<lambda>r1.
         and_then (py_get r1 ''caption'' (PStr [])) (\<lambda>caption.
           Inr ([], [PDict [(''type'', PStr ''figure''), (''bbox'', bbox),
                            (''caption'', caption)]], []))))
       else if item_type = PStr ''equation'' then
         and_then (py_get item ''bbox'' (PList [])) (\<lambda>bbox.
         and_then (py_get item ''res'' (PDict [])) (\<lambda>r1.
         and_then (py_get r1 ''latex'' (PStr [])) (\<lambda>latex.
           Inr ([], [], [PDict [(''type'', PStr ''formula''), (''bbox'', bbox),
                                (''latex'', latex)]]))))
       else Inr ([], [], []))"

fun structure_pass :: "pyval list \<Rightarrow> pyexn + pyval list \<times> pyval list \<times> pyval list" where
  "structure_pass [] = Inr ([], [], [])"
| "structure_pass (item # rest) =
     (case structure_item item of
        Inl e \<Rightarrow> Inl e
      | Inr here \<Rightarrow> (case structure_pass rest of
                       Inl e \<Rightarrow> Inl e
                     | Inr later \<Rightarrow>
                         Inr (fst here @ fst later,
                              fst (snd here) @ fst (snd later),
                              snd (snd here) @ snd (snd later))))"

text \<open>
  The \<open>try\<close> around the structure pass: an \<open>ImportError\<close> leaves the three lists empty
  (the loop over the items raises none), every other exception goes on.
\<close>

definition structure_part ::
  "ocr_env \<Rightarrow> string option \<Rightarrow> pyexn + pyval list \<times> pyval list \<times> pyval list" where
  "structure_part E image_path =
     (case import_ppstructure E of
        Some ImportError \<Rightarrow> Inr ([], [], [])
      | Some e \<Rightarrow> Inl e
      | None \<Rightarrow>
          (case structure_run E image_path of
             Inl ImportError \<Rightarrow> Inr ([], [], [])
           | Inl e \<Rightarrow> Inl e
           | Inr items \<Rightarrow> structure_pass items))"

definition process_with_paddleocr :: "ocr_env \<Rightarrow> string option \<Rightarrow> pyval \<Rightarrow> pyexn + pyval" where
  "process_with_paddleocr E image_path extract_type =
     (case import_paddleocr E of
        Some e \<Rightarrow> Inl e
      | None \<Rightarrow>
          and_then (ocr_predict E image_path) (\<lambda>ocr_result.
          and_then (text_pass E ocr_result) (\<lambda>found.
          and_then (join_texts (snd found)) (\<lambda>raw_text.
          and_then (structure_part E image_path) (\<lambda>st.
            Inr (PDict
              [(''success'', PBool True),
               (''text_blocks'', PList (fst found)),
               (''tables'', PList (fst st)),
               (''figures'', PList (fst (snd st))),
               (''formulas'', PList (snd (snd st))),
               (''raw_text'', PStr raw_text)]))))))"

subsection \<open>\<open>handler\<close>\<close>

text \<open>
  Saving the image: the result is \<open>temp_path\<close>, or the exception raised, and the file
  system after it. The temporary file exists from the moment it is created.
\<close>

definition save_image ::
  "ocr_env \<Rightarrow> pyval \<Rightarrow> pyval \<Rightarrow> string set \<Rightarrow> (pyexn + string option) \<times> string set" where
  "save_image E image_data file_url fs =
     (if truthy image_data then
        (case b64decode E image_data of
           Inl e \<Rightarrow> (Inl e, fs)
         | Inr image_bytes \<Rightarrow>
             (case new_temp_file E fs of
                Inl e \<Rightarrow> (Inl e, fs)
              | Inr name \<Rightarrow>
                  (case write_file E name image_bytes of
                     Some e \<Rightarrow> (Inl e, insert name fs)
                   | None \<Rightarrow> (Inr (Some name), insert name fs))))
      else if truthy file_url then
        (case new_temp_file E fs of
           Inl e \<Rightarrow> (Inl e, fs)
         | Inr name \<Rightarrow>
             (case urlretrieve E file_url name of
                Some e \<Rightarrow> (Inl e, insert name fs)
              | None \<Rightarrow> (Inr (Some name), insert name fs)))
      else (Inr None, fs))"

text \<open>
  The inner \<open>try ... finally\<close>: the response or the exception of the processing, and
  the file system after the cleanup.
\<close>

definition process_and_cleanup ::
  "ocr_env \<Rightarrow> string option \<Rightarrow> pyval \<Rightarrow> string set \<Rightarrow> (pyexn + response) \<times> string set" where
  "process_and_cleanup E temp_path extract_type fs =
     (and_then (process_with_paddleocr E temp_path extract_type) (\<lambda>result.
      and_then (py_dumps E result) (\<lambda>dumped.
        Inr \<lparr>statusCode = 200, headers = cors_headers, body = dumped\<rparr>)),
      (case temp_path of
         Some name \<Rightarrow> (if name \<noteq> [] \<and> name \<in> fs then fs - {name} else fs)
       | None \<Rightarrow> fs))"

text \<open>The body of the outer \<open>try\<close>.\<close>

definition handler_try ::
  "ocr_env \<Rightarrow> (string \<times> pyval) list \<Rightarrow> string set \<Rightarrow> (pyexn + response) \<times> string set" where
  "handler_try E event fs =
     (case json_loads E (dict_get event ''body'' (PStr ''{}'')) of
        Inl e \<Rightarrow> (Inl e, fs)
      | Inr request_body \<Rightarrow>
     (case py_get request_body ''image'' PNone of
        Inl e \<Rightarrow> (Inl e, fs)
      | Inr image_data \<Rightarrow>
     (case py_get request_body ''file_url'' PNone of
        Inl e \<Rightarrow> (Inl e, fs)
      | Inr file_url \<Rightarrow>
     (case py_get request_body ''extract_type'' (PStr ''all'') of
        Inl e \<Rightarrow> (Inl e, fs)
      | Inr extract_type \<Rightarrow>
          if \<not> truthy image_data \<and> \<not> truthy file_url then
            (Inr \<lparr>statusCode = 400, headers = cors_headers,
                  body = json_dumps E
                    (PDict [(''error'', PStr ''No image data or file URL provided'')])\<rparr>, fs)
          else
            (case import_paddleocr E of
               Some ImportError \<Rightarrow> (Inr (fallback_ocr_response E request_body cors_headers), fs)
             | Some e \<Rightarrow> (Inl e, fs)
             | None \<Rightarrow>
                 (case save_image E image_data file_url fs of
                    (Inl e, fs') \<Rightarrow> (Inl e, fs')
                  | (Inr temp_path, fs') \<Rightarrow>
                      process_and_cleanup E temp_path extract_type fs'))))))"

definition handler ::
  "ocr_env \<Rightarrow> (string \<times> pyval) list \<Rightarrow> string set \<Rightarrow> response \<times> string set" where
  "handler E event fs =
     (if dict_get event ''httpMethod'' PNone = PStr ''OPTIONS'' then
        (\<lparr>statusCode = 200, headers = cors_headers, body = []\<rparr>, fs)
      else
        (case handler_try E event fs of
           (Inr resp, fs') \<Rightarrow> (resp, fs')
         | (Inl e, fs') \<Rightarrow>
             (\<lparr>statusCode = 500, headers = cors_headers,
               body = json_dumps E (PDict [(''error'', PStr (exc_str E e))])\<rparr>, fs')))"

subsection \<open>A concrete deployment\<close>

text \<open>
  The examples run in this deployment. \<open>json.dumps\<close> writes a value as JSON (strings
  without escapes, and of the floats the whole numbers only); \<open>json.loads\<close> reads the
  request bodies of the examples; the temporary file is always \<open>/tmp/tmpq1.png\<close>;
  \<open>urlretrieve\<close> raises on \<open>not-a-url\<close>, which has no scheme; the OCR finds one line of
  text; the structure pass cannot be imported.
\<close>

definition dq :: string where
  "dq = [CHR 0x22]"

primrec json_text :: "pyval \<Rightarrow> string" where
  "json_text PNone = ''null''"
| "json_text (PBool b) = (if b then ''true'' else ''false'')"
| "json_text (PInt i) = demo_str (PInt i)"
| "json_text (PFloat q) = demo_str (PInt \<lfloor>q\<rfloor>) @ ''.0''"
| "json_text (PStr s) = dq @ s @ dq"
| "json_text (PList xs) = ''['' @ py_join '', '' (map json_text xs) @ '']''"
| "json_text (PDict d) =
     ''{'' @ py_join '', ''
              (map (\<lambda>kv. dq @ fst kv @ dq @ '': '' @ snd kv) (map (map_prod id json_text) d))
         @ ''}''"

definition url_request :: string where
  "url_request = ''{'' @ dq @ ''file_url'' @ dq @ '': '' @ dq @ ''not-a-url'' @ dq @ ''}''"

definition image_request :: "string \<Rightarrow> string" where
  "image_request extract_type =
     ''{'' @ dq @ ''image'' @ dq @ '': '' @ dq @ ''aGk='' @ dq @ '', ''
          @ dq @ ''extract_type'' @ dq @ '': '' @ dq @ extract_type @ dq @ ''}''"

definition demo_loads :: "pyval \<Rightarrow> pyexn + pyval" where
  "demo_loads raw =
     (if raw = PStr url_request then Inr (PDict [(''file_url'', PStr ''not-a-url'')])
      else if raw = PStr (image_request ''text'')
      then Inr (PDict [(''image'', PStr ''aGk=''), (''extract_type'', PStr ''text'')])
      else if raw = PStr (image_request ''table'')
      then Inr (PDict [(''image'', PStr ''aGk=''), (''extract_type'', PStr ''table'')])
      else Inl ValueError)"

definition demo_float :: "pyval \<Rightarrow> pyexn + rat" where
  "demo_float v =
     (case v of PFloat q \<Rightarrow> Inr q | PInt i \<Rightarrow> Inr (of_int i) | _ \<Rightarrow> Inl TypeError)"

definition ocr_demo :: ocr_env where
  "ocr_demo =
     \<lparr>json_loads = demo_loads, json_dumps = json_text, exc_str = demo_exn_str,
      import_paddleocr = None, import_ppstructure = Some ImportError,
      b64decode = (\<lambda>v. case v of PStr s \<Rightarrow> Inr ''hi'' | _ \<Rightarrow> Inl TypeError),
      new_temp_file = (\<lambda>fs. Inr ''/tmp/tmpq1.png''),
      write_file = (\<lambda>name bytes. None),
      urlretrieve = (\<lambda>u name. if u = PStr ''not-a-url'' then Some ValueError else None),
      ocr_predict = (\<lambda>image_path.
        Inr [\<lparr>rec_texts = Some [PStr ''H2O''], rec_scores = None, dt_polys = None\<rparr>]),
      to_float = demo_float,
      structure_run = (\<lambda>image_path. Inr [])\<rparr>"

text \<open>The same deployment without the OCR library.\<close>

definition no_ocr_demo :: ocr_env where
  "no_ocr_demo = ocr_demo\<lparr>import_paddleocr := Some ImportError\<rparr>"

section \<open>Properties\<close>

lemmas str_defs =
  py_split_def py_strip_def int_of_str_def int_strip_def int_isspace_def dec_literal_def
  max_str_digits_def dec_number_def is_digit_def digit_val_def py_isspace_def

lemmas lower_defs = py_lower_def lower_char_def char_of_def bit_iff_odd

lemmas pydantic_defs =
  Publication_init_def validate_str_def validate_int_def validate_opt_str_def
  validate_opt_int_def validate_str_list_def

lemmas parse_defs =
  parse_publication_def parse_try_def parse_body_def parse_recover_def expanded_def
  and_then_def authors_of_def year_of_def py_or_def dict_get_def py_str_def str_text_def

lemmas demo_defs = demo_env_def demo_int_def demo_str_def demo_exn_str_def

subsection \<open>The normalizer\<close>

lemma py_get_Inr: "py_get v k dflt = Inr x \<Longrightarrow> \<exists>d. v = PDict d \<and> x = dict_get d k dflt"
  by (cases v) auto

lemma py_str_PStr: "py_str E (PStr s) = Inr s"
  by (simp add: py_str_def str_text_def)

lemma Publication_init_Inr:
  "Publication_init E t a y ab v c u b s = Inr p \<Longrightarrow>
     validate_str E t = Some (title p) \<and> validate_str_list E a = Some (authors p) \<and>
     validate_opt_int E y = Some (year p)"
  by (auto simp: Publication_init_def split: option.splits Option.bind_splits)

lemma Publication_init_minimal:
  "Publication_init E (PStr t) (PList []) PNone PNone PNone PNone PNone PNone PNone =
     Inr \<lparr>title = t, authors = [], year = None, abstract = None, venue = None,
          citations = None, url = None, bibtex = None, scholar_url = None\<rparr>"
  by (simp add: pydantic_defs)

text \<open>
  On a mapping whose \<open>bib\<close> is a mapping the handler raises what \<open>str\<close> of the title
  raises, and returns the minimal record otherwise.
\<close>

lemma parse_recover_mapping:
  assumes "py_get pub ''bib'' (PDict []) = Inr (PDict bib)"
  shows "parse_recover E pub =
     and_then (py_str E (dict_get bib ''title'' (PStr ''Unknown''))) (\<lambda>salvaged.
       Inr \<lparr>title = salvaged, authors = [], year = None, abstract = None, venue = None,
            citations = None, url = None, bibtex = None, scholar_url = None\<rparr>)"
  using assms by (simp add: parse_recover_def and_then_def Publication_init_minimal)

lemma parse_body_mapping:
  assumes "py_get pub ''bib'' (PDict []) = Inr (PDict bib)" and "parse_body E pub = Inr p"
  shows "validate_str E (dict_get bib ''title'' (PStr ''Unknown Title'')) = Some (title p)
       \<and> validate_str_list E (authors_of (dict_get bib ''author'' (PStr []))) = Some (authors p)
       \<and> validate_opt_int E
           (year_of (py_or (dict_get bib ''pub_year'' PNone) (dict_get bib ''year'' PNone)))
          = Some (year p)"
proof -
  from assms(1) obtain d where d: "pub = PDict d" by (auto dest: py_get_Inr)
  with assms show ?thesis
    by (auto simp: parse_body_def and_then_def dest!: Publication_init_Inr)
qed

lemma parse_try_Inr:
  "parse_try E pub fd = Inr p \<Longrightarrow> parse_body E (expanded E pub fd) = Inr p"
  by (auto simp: parse_try_def expanded_def and_then_def split: if_splits sum.splits)

text \<open>
  Whenever the \<open>try\<close> succeeds on a record whose \<open>bib\<close> has no \<open>author\<close>, the authors
  are the list of one empty string.
\<close>

lemma missing_author_authors:
  assumes bib: "py_get (expanded E pub fd) ''bib'' (PDict []) = Inr (PDict bib)"
    and a: "map_of bib ''author'' = None"
    and p: "parse_try E pub fd = Inr p"
  shows "authors p = [[]]"
proof -
  from parse_body_mapping [OF bib parse_try_Inr [OF p]] a
  have "validate_str_list E (authors_of (PStr [])) = Some (authors p)"
    by (simp add: dict_get_def)
  then show ?thesis
    by (simp add: authors_of_def py_split_def py_strip_def validate_str_list_def
        validate_str_def)
qed

text \<open>
  C1. A record whose \<open>bib\<close> has no \<open>author\<close> is normalized without an error, but its
  authors are not the empty list: \<open>bib.get('author', '')\<close> is the empty string,
  \<open>''.split(' and ')\<close> is \<open>['']\<close>, and the Publication carries one author, the empty
  string. This holds in every environment.
\<close>

theorem missing_author_gives_one_empty_name:
  "parse_publication E
     (PDict [(''bib'', PDict [(''title'', PStr ''Deep learning''), (''pub_year'', PStr ''2015'')]),
             (''num_citations'', PInt 7)]) False =
   Inr \<lparr>title = ''Deep learning'', authors = [[]], year = Some 2015, abstract = Some [],
        venue = Some [], citations = Some 7, url = Some [], bibtex = Some [],
        scholar_url = Some []\<rparr>"
  by (simp add: parse_defs pydantic_defs str_defs)

text \<open>
  C3. The claim fails on the code: the handler of \<open>except Exception\<close> is not protected
  itself. It reads \<open>pub.get('bib', {}).get('title', ...)\<close> again, so on a record whose
  \<open>bib\<close> is not a mapping the attribute error of the \<open>try\<close> is raised a second time,
  inside the handler, and reaches the caller. This holds in every environment.
\<close>

theorem parse_publication_raises_on_bib_none:
  "parse_publication E (PDict [(''bib'', PNone)]) False = Inl AttributeError"
  by (simp add: parse_defs)

text \<open>
  The handler also calls \<open>str\<close> on the title, which raises on a huge integer: a title
  that pydantic rejects and \<open>str\<close> cannot write reaches the caller as an error too.
\<close>

lemma parse_publication_raises_on_huge_title:
  "parse_publication E (PDict [(''bib'', PDict [(''title'', PList [PInt huge_int])])]) False
     = Inl ValueError"
  by (simp add: parse_defs pydantic_defs py_split_def py_strip_def)

text \<open>
  Where the handler does not fail: on a record that, after the optional expansion, is a
  mapping whose \<open>bib\<close> is absent or a mapping and whose title \<open>str\<close> can write,
  \<open>parse_publication\<close> returns the Publication the \<open>try\<close> built or, when the \<open>try\<close>
  raised, the minimal one.
\<close>

lemma parse_publication_returns_on_mappings:
  assumes bib: "py_get (expanded E pub fd) ''bib'' (PDict []) = Inr (PDict bib)"
    and t: "\<not> has_huge_int (dict_get bib ''title'' (PStr ''Unknown''))"
  shows "case parse_try E pub fd of
           Inr p \<Rightarrow> parse_publication E pub fd = Inr p
         | Inl e \<Rightarrow> parse_publication E pub fd =
             Inr \<lparr>title = str_text E (dict_get bib ''title'' (PStr ''Unknown'')), authors = [],
                  year = None, abstract = None, venue = None, citations = None, url = None,
                  bibtex = None, scholar_url = None\<rparr>"
  using parse_recover_mapping [OF bib, of E] t
  by (simp add: parse_publication_def py_str_def and_then_def split: sum.splits)

text \<open>
  C7. The claim fails on the code through the same unprotected handler. The year of
  this record is the string \<open>NA\<close>, which \<open>int\<close> does not accept, and its title is a
  list that holds an integer of 4301 digits: pydantic rejects the title, the handler
  calls \<open>str\<close> on it, and the \<open>ValueError\<close> of \<open>str\<close> reaches the caller. This holds
  in every environment.
\<close>

theorem non_numeric_year_with_huge_title_raises:
  "parse_publication E
     (PDict [(''bib'', PDict [(''title'', PList [PInt huge_int]),
                              (''pub_year'', PStr ''NA'')])]) False
     = Inl ValueError"
  by (simp add: parse_defs pydantic_defs str_defs)

text \<open>
  Apart from that error the claim holds. Let the year of the record,
  \<open>bib.get('pub_year') or bib.get('year')\<close>, be a string that \<open>int\<close> does not accept,
  and let pydantic reject the empty string as an integer. Then \<open>parse_publication\<close>
  returns a Publication whose year is absent, or it raises and the title of the record
  holds a huge integer.
\<close>

lemma non_numeric_year_is_absent:
  assumes bib: "py_get (expanded E pub fd) ''bib'' (PDict []) = Inr (PDict bib)"
    and y: "py_or (dict_get bib ''pub_year'' PNone) (dict_get bib ''year'' PNone) = PStr s"
    and s: "int_of_str s = None"
    and c: "coerce_int E (PStr []) = None"
  shows "case parse_publication E pub fd of
           Inr p \<Rightarrow> year p = None
         | Inl e \<Rightarrow> has_huge_int (dict_get bib ''title'' (PStr ''Unknown''))"
proof (cases "parse_try E pub fd")
  case (Inl e)
  then show ?thesis
    using parse_recover_mapping [OF bib, of E]
    by (simp add: parse_publication_def py_str_def and_then_def)
next
  case (Inr p)
  from parse_body_mapping [OF bib parse_try_Inr [OF Inr]] y
  have "validate_opt_int E (year_of (PStr s)) = Some (year p)" by simp
  with s c have "year p = None"
    by (auto simp: year_of_def validate_opt_int_def validate_int_def split: if_splits)
  with Inr show ?thesis by (simp add: parse_publication_def)
qed

text \<open>
  The strings \<open>int\<close> does not accept include the ones \<open>strip\<close> would clean: a file
  separator before the digits makes the year absent.
\<close>

lemma year_after_separator_is_absent:
  "parse_publication E
     (PDict [(''bib'', PDict [(''title'', PStr ''Zeolites''),
                              (''pub_year'', PStr (CHR 0x1C # ''2015''))])]) False
     = Inr \<lparr>title = ''Zeolites'', authors = [[]], year = None, abstract = Some [],
            venue = Some [], citations = Some 0, url = Some [], bibtex = Some [],
            scholar_url = Some []\<rparr>"
  by (simp add: parse_defs pydantic_defs str_defs)

text \<open>
  C10. Let the record's \<open>bib\<close> be a mapping with no title. When the \<open>try\<close> raises, the
  handler's Publication has the title \<open>Unknown\<close>; when it does not, the Publication has
  the title \<open>Unknown Title\<close>.
\<close>

theorem default_title_differs_between_paths:
  assumes bib: "py_get (expanded E pub fd) ''bib'' (PDict []) = Inr (PDict bib)"
    and t: "map_of bib ''title'' = None"
  shows "case parse_try E pub fd of
           Inl e \<Rightarrow> (\<exists>p. parse_publication E pub fd = Inr p \<and> title p = ''Unknown'')
         | Inr q \<Rightarrow> parse_publication E pub fd = Inr q \<and> title q = ''Unknown Title''"
proof (cases "parse_try E pub fd")
  case (Inl e)
  then show ?thesis
    using parse_recover_mapping [OF bib, of E] t
    by (simp add: parse_publication_def dict_get_def py_str_PStr and_then_def)
next
  case (Inr q)
  from parse_body_mapping [OF bib parse_try_Inr [OF Inr]] t
  have "title q = ''Unknown Title''" by (simp add: dict_get_def validate_str_def)
  with Inr show ?thesis by (simp add: parse_publication_def)
qed

text \<open>
  Both paths, at two records without a title: the first is normalized, the second has
  a list as its abstract and goes through the handler.
\<close>

theorem default_title_differs_between_paths_witness:
  "(\<exists>q. parse_try demo_env (PDict [(''bib'', PDict [(''pub_year'', PStr ''2015'')])]) False = Inr q
       \<and> parse_publication demo_env (PDict [(''bib'', PDict [(''pub_year'', PStr ''2015'')])]) False
           = Inr q
       \<and> title q = ''Unknown Title'')
   \<and> parse_try demo_env (PDict [(''bib'', PDict [(''abstract'', PList [])])]) False
       = Inl ValidationError
   \<and> (\<exists>p. parse_publication demo_env (PDict [(''bib'', PDict [(''abstract'', PList [])])]) False
           = Inr p \<and> title p = ''Unknown'')"
proof -
  have b1: "py_get (expanded demo_env (PDict [(''bib'', PDict [(''pub_year'', PStr ''2015'')])]) False)
      ''bib'' (PDict []) = Inr (PDict [(''pub_year'', PStr ''2015'')])"
    by (simp add: expanded_def dict_get_def)
  have t1: "map_of [(''pub_year'', PStr ''2015'')] ''title'' = None"
    by simp
  have n1: "\<exists>q. parse_try demo_env (PDict [(''bib'', PDict [(''pub_year'', PStr ''2015'')])]) False
      = Inr q"
    by (simp add: parse_defs pydantic_defs str_defs)
  have b2: "py_get (expanded demo_env (PDict [(''bib'', PDict [(''abstract'', PList [])])]) False)
      ''bib'' (PDict []) = Inr (PDict [(''abstract'', PList [])])"
    by (simp add: expanded_def dict_get_def)
  have t2: "map_of [(''abstract'', PList [])] ''title'' = None"
    by simp
  have n2: "parse_try demo_env (PDict [(''bib'', PDict [(''abstract'', PList [])])]) False
      = Inl ValidationError"
    by (simp add: parse_defs pydantic_defs str_defs)
  show ?thesis
    using n1 n2 default_title_differs_between_paths [OF b1 t1]
      default_title_differs_between_paths [OF b2 t2]
    by auto
qed

subsection \<open>The search endpoint\<close>

lemmas example_defs =
  rec_a_def rec_b_def rec_c_def rec_d_def library_env_def library_of_def flaky_env_def

lemma to_http_Inr: "to_http E msg m = Inr x \<Longrightarrow> m = Inr x"
  by (auto simp: to_http_def split: sum.splits failure.splits)

lemma lift_py_Inr: "lift_py m = Inr x \<longleftrightarrow> m = Inr x"
  by (auto simp: lift_py_def split: sum.splits)

lemma and_then_Inr: "and_then m f = Inr y \<longleftrightarrow> (\<exists>x. m = Inr x \<and> f x = Inr y)"
  by (auto simp: and_then_def split: sum.splits)

lemma search_loop_Inr:
  "search_loop E limit i recs t acc = Inr pubs \<Longrightarrow>
     \<exists>ps. pubs = acc @ ps \<and>
          map Inr ps = map (\<lambda>r. parse_publication E r False) (take (nat (limit - int i)) recs)"
proof (induction recs arbitrary: i acc)
  case Nil
  then show ?case by (cases t) auto
next
  case (Cons pub rest)
  show ?case
  proof (cases "limit \<le> int i")
    case True
    with Cons.prems show ?thesis by simp
  next
    case False
    with Cons.prems obtain p where p: "parse_publication E pub False = Inr p"
      and rec: "search_loop E limit (Suc i) rest t (acc @ [p]) = Inr pubs"
      by (auto split: sum.splits)
    from Cons.IH [OF rec] obtain ps where ps: "pubs = (acc @ [p]) @ ps"
      "map Inr ps = map (\<lambda>r. parse_publication E r False) (take (nat (limit - int (Suc i))) rest)"
      by blast
    from False have n: "nat (limit - int i) = Suc (nat (limit - int (Suc i)))" by simp
    show ?thesis
      using ps p by (intro exI [of _ "p # ps"]) (simp add: n)
  qed
qed

text \<open>Whatever the endpoint returns is within the limit, counted and echoed.\<close>

lemma search_result_bounds:
  assumes r: "search_publications E q limit = Inr r" and lim: "0 \<le> limit"
  shows "length (publications r) \<le> nat limit
       \<and> total_results r = Some (int (length (publications r))) \<and> query r = q"
proof -
  from r obtain g pubs where l: "search_loop E limit 0 (fst g) (snd g) [] = Inr pubs"
    and res: "r = \<lparr>publications = pubs, total_results = Some (int (length pubs)), query = q\<rparr>"
    by (auto simp: search_publications_def and_then_Inr split: sum.splits)
  from search_loop_Inr [OF l]
  have "map Inr pubs = map (\<lambda>x. parse_publication E x False) (take (nat limit) (fst g))"
    by simp
  then have "length (map Inr pubs :: (pyexn + Publication) list)
      = length (take (nat limit) (fst g))"
    by simp
  then have "length pubs \<le> nat limit" by simp
  with res show ?thesis by simp
qed

text \<open>
  C8. The claim fails on the code: each round of the loop pulls the next record before
  it compares \<open>i\<close> with \<open>limit\<close>, so the endpoint does not stop after \<open>limit\<close> items but
  makes \<open>limit + 1\<close> pulls. A generator that yields \<open>limit\<close> records and raises on the
  next pull makes the endpoint raise the status 500 where \<open>limit\<close> records were there
  to return. Here \<open>limit\<close> is 1 and the generator yields one record.
\<close>

theorem search_fails_on_pull_after_limit:
  "search_pubs flaky_env ''machine learning chemistry''
     = Inr ([rec_a], Some (OtherError ''Cannot fetch''))
   \<and> search_publications flaky_env ''machine learning chemistry'' 1
     = Inl (HTTPException 500 ''Search failed: Cannot fetch'')"
  by (simp add: search_publications_def example_defs demo_defs parse_defs pydantic_defs str_defs)

text \<open>
  The example of the specification: with three records to find and the limit 2 the
  endpoint returns the first two, normalized.
\<close>

lemma search_two_of_three:
  "search_publications library_env ''machine learning chemistry'' 2 =
     Inr \<lparr>publications =
            [\<lparr>title = ''Deep learning'', authors = [''Ada Lovelace'', ''Charles Babbage''],
              year = Some 1843, abstract = Some [], venue = Some ''Analytical Engines'',
              citations = Some 7, url = Some [], bibtex = Some [], scholar_url = Some []\<rparr>,
             \<lparr>title = ''DEEP LEARNING'', authors = [''G Boole''], year = None,
              abstract = Some [], venue = Some [], citations = Some 0, url = Some [],
              bibtex = Some [], scholar_url = Some []\<rparr>],
          total_results = Some 2, query = ''machine learning chemistry''\<rparr>"
  by (simp add: search_publications_def example_defs demo_defs parse_defs pydantic_defs
      str_defs)

subsection \<open>Similar papers\<close>

lemma similar_loop_Inr:
  "similar_loop E limit ot i es t acc = Inr sims \<Longrightarrow>
     \<exists>ps. sims = acc @ ps \<and>
          map Inr ps = map (\<lambda>p. parse_publication E p False)
             (filter (\<lambda>p. \<not> title_matches ot p) (take (nat (limit + 1 - int i)) es))"
proof (induction es arbitrary: i acc)
  case Nil
  then show ?case by (cases t) auto
next
  case (Cons pub rest)
  show ?case
  proof (cases "limit + 1 \<le> int i")
    case True
    with Cons.prems show ?thesis by simp
  next
    case False
    then have n: "nat (limit + 1 - int i) = Suc (nat (limit + 1 - int (Suc i)))" by simp
    from False Cons.prems obtain l where l: "and_then (pub_title pub) str_lower = Inr l"
      by (auto split: sum.splits)
    show ?thesis
    proof (cases "l = py_lower ot")
      case True
      with False l Cons.prems have "similar_loop E limit ot (Suc i) rest t acc = Inr sims"
        by simp
      from Cons.IH [OF this] True l show ?thesis
        by (simp add: n title_matches_def)
    next
      case neq: False
      with False l Cons.prems obtain p where p: "parse_publication E pub False = Inr p"
        and rec: "similar_loop E limit ot (Suc i) rest t (acc @ [p]) = Inr sims"
        by (auto split: sum.splits)
      from Cons.IH [OF rec] obtain ps where ps: "sims = (acc @ [p]) @ ps"
        "map Inr ps = map (\<lambda>p. parse_publication E p False)
           (filter (\<lambda>p. \<not> title_matches ot p) (take (nat (limit + 1 - int (Suc i))) rest))"
        by blast
      show ?thesis
        using ps p neq l by (intro exI [of _ "p # ps"]) (simp add: n title_matches_def)
    qed
  qed
qed

text \<open>
  C6. Whenever the operation returns (\<open>limit\<close> at least 0; the endpoint admits 1 to
  30), the original title is the title of the first candidate, the second search is
  made with its first five words, and the list returned is: the first \<open>limit + 1\<close>
  entries of that search, without the entries whose title matches the original title in
  lower case, each normalized, cut to \<open>limit\<close> entries. No later entry is read, and the
  list has at most \<open>limit\<close> entries.
\<close>

theorem similar_papers_filtered:
  assumes r: "get_similar_papers E ttl limit = Inr r" and lim: "0 \<le> limit"
  shows "\<exists>paper bib es t.
           first_match E ttl = Inr paper
         \<and> py_get paper ''bib'' (PDict []) = Inr bib
         \<and> py_get bib ''title'' (PStr ttl) = Inr (PStr (original_title r))
         \<and> search_pubs E (keywords_of (original_title r)) = Inr (es, t)
         \<and> map Inr (similar_papers r) =
             take (nat limit) (map (\<lambda>p. parse_publication E p False)
               (filter (\<lambda>p. \<not> title_matches (original_title r) p) (take (nat limit + 1) es)))
         \<and> length (similar_papers r) \<le> nat limit"
proof -
  from to_http_Inr [OF r [unfolded get_similar_papers_def]]
  obtain paper bib orig where fm: "first_match E ttl = Inr paper"
    and b: "py_get paper ''bib'' (PDict []) = Inr bib"
    and o: "py_get bib ''title'' (PStr ttl) = Inr orig"
    and rest: "(case orig of
           PStr ot \<Rightarrow>
             and_then (lift_py (search_pubs E (keywords_of ot))) (\<lambda>g.
             and_then (lift_py (similar_loop E limit ot 0 (fst g) (snd g) [])) (\<lambda>sims.
               Inr \<lparr>similar_papers = py_slice_to sims limit, original_title = ot\<rparr>))
         | _ \<Rightarrow> Inl (Py AttributeError)) = Inr r"
    by (auto simp: and_then_Inr lift_py_Inr)
  from rest obtain ot where ot: "orig = PStr ot" by (cases orig) auto
  with rest obtain g sims where g: "search_pubs E (keywords_of ot) = Inr g"
    and l: "similar_loop E limit ot 0 (fst g) (snd g) [] = Inr sims"
    and res: "r = \<lparr>similar_papers = py_slice_to sims limit, original_title = ot\<rparr>"
    by (auto simp: and_then_Inr lift_py_Inr)
  from lim have n: "nat (limit + 1) = nat limit + 1" by simp
  from similar_loop_Inr [OF l]
  have m: "map Inr sims = map (\<lambda>p. parse_publication E p False)
      (filter (\<lambda>p. \<not> title_matches ot p) (take (nat limit + 1) (fst g)))"
    unfolding n [symmetric] by simp
  have "map Inr (py_slice_to sims limit) = take (nat limit) (map Inr sims :: (pyexn + Publication) list)"
    using lim by (simp add: py_slice_to_def take_map)
  with m have m': "map Inr (py_slice_to sims limit) = take (nat limit) (map (\<lambda>p. parse_publication E p False)
      (filter (\<lambda>p. \<not> title_matches ot p) (take (nat limit + 1) (fst g))))" by simp
  have len: "length (py_slice_to sims limit) \<le> nat limit"
    using lim by (simp add: py_slice_to_def)
  show ?thesis
    using fm b o ot g m' len res
    by (intro exI [of _ paper] exI [of _ bib] exI [of _ "fst g"] exI [of _ "snd g"]) simp
qed

theorem similar_papers_filtered_witness:
  "get_similar_papers library_env ''Deep learning'' 2
     = Inr \<lparr>similar_papers =
             [\<lparr>title = ''Zeolites'', authors = [''M Curie''], year = None, abstract = Some [],
               venue = Some [], citations = Some 0, url = Some [], bibtex = Some [],
               scholar_url = Some []\<rparr>],
            original_title = ''Deep learning''\<rparr>
   \<and> title_matches ''Deep learning'' rec_a \<and> title_matches ''Deep learning'' rec_b
   \<and> length (similar_papers
        \<lparr>similar_papers =
             [\<lparr>title = ''Zeolites'', authors = [''M Curie''], year = None, abstract = Some [],
               venue = Some [], citations = Some 0, url = Some [], bibtex = Some [],
               scholar_url = Some []\<rparr>],
            original_title = ''Deep learning''\<rparr>) \<le> nat 2"
proof -
  have r: "get_similar_papers library_env ''Deep learning'' 2
     = Inr \<lparr>similar_papers =
             [\<lparr>title = ''Zeolites'', authors = [''M Curie''], year = None, abstract = Some [],
               venue = Some [], citations = Some 0, url = Some [], bibtex = Some [],
               scholar_url = Some []\<rparr>],
            original_title = ''Deep learning''\<rparr>"
    by (simp add: get_similar_papers_def to_http_def lift_py_def first_match_def
        keywords_of_def py_split_ws_def pub_title_def str_lower_def lower_defs
        py_slice_to_def example_defs demo_defs parse_defs pydantic_defs
        str_defs)
  have m: "title_matches ''Deep learning'' rec_a" "title_matches ''Deep learning'' rec_b"
    by (simp_all add: title_matches_def pub_title_def str_lower_def lower_defs
        and_then_def dict_get_def example_defs)
  have l: "(0::int) \<le> 2" by simp
  from similar_papers_filtered [OF r l] have
    "length (similar_papers
        \<lparr>similar_papers =
             [\<lparr>title = ''Zeolites'', authors = [''M Curie''], year = None, abstract = Some [],
               venue = Some [], citations = Some 0, url = Some [], bibtex = Some [],
               scholar_url = Some []\<rparr>],
            original_title = ''Deep learning''\<rparr>) \<le> nat 2"
    by blast
  with r m show ?thesis by blast
qed

subsection \<open>BibTeX\<close>


lemma entry_type_of_dict: "entry_type_of (PDict d) = Inr (spec_entry_type d)"
  by (simp add: entry_type_of_def py_in_def and_then_def spec_entry_type_def)





text \<open>
  The hypotheses of the theorem are the runs in which an entry is synthesized: whenever
  the operation returns, either the expanded record supplied a true \<open>bibtex\<close>, which is
  returned as it is, or \<open>bib\<close> is a mapping, the cite key was built and \<open>str\<close> wrote
  the title and the venue.
\<close>

lemma huge_int_pos: "0 < huge_int"
  by (simp add: huge_int_def)

lemma falsy_not_huge: "\<not> truthy v \<Longrightarrow> \<not> has_huge_int v"
  using huge_int_pos by (cases v) auto

lemma py_str_Inr: "py_str E v = Inr t \<Longrightarrow> \<not> has_huge_int v"
  by (auto simp: py_str_def split: if_splits)

lemma synth_bibtex_Inr:
  assumes "synth_bibtex E bib = Inr r"
  shows "\<exists>d key. bib = PDict d
       \<and> cite_key_of E (dict_get d ''author'' (PStr ''Unknown''))
            (dict_get d ''pub_year'' (dict_get d ''year'' (PStr []))) = Inr key
       \<and> \<not> has_huge_int (dict_get d ''title'' (PStr ''Unknown''))
       \<and> \<not> has_huge_int (py_or (dict_get d ''venue'' (PStr []))
            (py_or (dict_get d ''journal'' (PStr [])) (dict_get d ''booktitle'' (PStr []))))"
proof -
  from assms obtain d where d: "bib = PDict d"
    by (auto simp: synth_bibtex_def and_then_Inr dest: py_get_Inr)
  let ?v = "py_or (dict_get d ''venue'' (PStr []))
            (py_or (dict_get d ''journal'' (PStr [])) (dict_get d ''booktitle'' (PStr [])))"
  from assms d obtain key tt where
    k: "cite_key_of E (dict_get d ''author'' (PStr ''Unknown''))
            (dict_get d ''pub_year'' (dict_get d ''year'' (PStr []))) = Inr key"
    and t: "py_str E (dict_get d ''title'' (PStr ''Unknown'')) = Inr tt"
    and v: "truthy ?v \<Longrightarrow> \<exists>vt. py_str E ?v = Inr vt"
    by (auto simp: synth_bibtex_def and_then_Inr entry_type_of_dict Let_def split: if_splits)
  have "\<not> has_huge_int ?v"
  proof (cases "truthy ?v")
    case True
    from v [OF True] show ?thesis by (auto dest: py_str_Inr)
  next
    case False
    then show ?thesis by (rule falsy_not_huge)
  qed
  with d k py_str_Inr [OF t] show ?thesis by blast
qed

lemma bibtex_synthesized_only_if:
  assumes "get_bibtex E ttl = Inr resp"
  shows "\<exists>found paper bib supplied.
           first_match E ttl = Inr found \<and> fill E found = Inr paper
         \<and> py_get paper ''bib'' (PDict []) = Inr bib
         \<and> py_get paper ''bibtex'' (PStr []) = Inr supplied
         \<and> (truthy supplied \<and> py_get resp ''bibtex'' PNone = Inr supplied
            \<or> (\<exists>d key. bib = PDict d
                \<and> cite_key_of E (dict_get d ''author'' (PStr ''Unknown''))
                     (dict_get d ''pub_year'' (dict_get d ''year'' (PStr []))) = Inr key
                \<and> \<not> has_huge_int (dict_get d ''title'' (PStr ''Unknown''))
                \<and> \<not> has_huge_int (py_or (dict_get d ''venue'' (PStr []))
                     (py_or (dict_get d ''journal'' (PStr []))
                        (dict_get d ''booktitle'' (PStr []))))))"
proof -
  from to_http_Inr [OF assms [unfolded get_bibtex_def]]
  obtain found paper bib supplied r where fm: "first_match E ttl = Inr found"
    and fl: "fill E found = Inr paper"
    and b: "py_get paper ''bib'' (PDict []) = Inr bib"
    and s: "py_get paper ''bibtex'' (PStr []) = Inr supplied"
    and r: "(if truthy supplied then Inr (PStr ttl, supplied)
             else and_then (synth_bibtex E bib) (\<lambda>r. Inr (fst r, PStr (snd r)))) = Inr r"
    and resp: "py_get resp ''bibtex'' PNone = Inr (snd r)"
    by (auto simp: and_then_Inr lift_py_Inr dict_get_def)
  have "truthy supplied \<and> py_get resp ''bibtex'' PNone = Inr supplied
      \<or> (\<exists>d key. bib = PDict d
          \<and> cite_key_of E (dict_get d ''author'' (PStr ''Unknown''))
               (dict_get d ''pub_year'' (dict_get d ''year'' (PStr []))) = Inr key
          \<and> \<not> has_huge_int (dict_get d ''title'' (PStr ''Unknown''))
          \<and> \<not> has_huge_int (py_or (dict_get d ''venue'' (PStr []))
               (py_or (dict_get d ''journal'' (PStr [])) (dict_get d ''booktitle'' (PStr [])))))"
  proof (cases "truthy supplied")
    case True
    with r resp show ?thesis by auto
  next
    case False
    with r obtain r' where "synth_bibtex E bib = Inr r'" by (auto simp: and_then_Inr)
    from synth_bibtex_Inr [OF this] show ?thesis by blast
  qed
  with fm fl b s show ?thesis by blast
qed

subsection \<open>The OCR handler\<close>

lemmas ocr_demo_defs = ocr_demo_def no_ocr_demo_def demo_loads_def demo_float_def
  url_request_def image_request_def dq_def demo_exn_str_def
lemmas handler_defs = handler_def handler_try_def save_image_def process_and_cleanup_def
  fallback_ocr_response_def dict_get_def and_then_def

text \<open>
  C2. The claim fails on the code where the image is fetched from \<open>file_url\<close> and the
  fetch raises: \<open>NamedTemporaryFile(delete=False)\<close> has created the file, the
  exception leaves the \<open>with\<close> block before \<open>temp_path\<close> is set and before the
  \<open>try ... finally\<close> that removes the file is entered, and the handler answers 500
  while the file exists.
\<close>

theorem failed_download_leaves_temp_file:
  "handler ocr_demo [(''httpMethod'', PStr ''POST''), (''body'', PStr url_request)] {} =
     (\<lparr>statusCode = 500, headers = cors_headers,
       body = json_dumps ocr_demo (PDict [(''error'', PStr (exc_str ocr_demo ValueError))])\<rparr>,
      {''/tmp/tmpq1.png''})"
  by (simp add: handler_defs ocr_demo_defs)

text \<open>Once \<open>temp_path\<close> is set, the \<open>finally\<close> block does remove the file.\<close>

lemma temp_file_removed_once_saved:
  assumes "save_image E image_data file_url fs = (Inr (Some name), fs')" and "name \<noteq> []"
  shows "name \<notin> snd (process_and_cleanup E (Some name) extract_type fs')"
  using assms by (simp add: process_and_cleanup_def)

text \<open>Every request whose method is \<open>OPTIONS\<close> gets the preflight answer.\<close>

lemma preflight_answer:
  "dict_get event ''httpMethod'' PNone = PStr ''OPTIONS'' \<Longrightarrow>
     handler E event fs = (\<lparr>statusCode = 200, headers = cors_headers, body = []\<rparr>, fs)"
  by (simp add: handler_def)








end
